theory Spec2Isabelle
  imports Complex_Main
begin

section \<open>FastTurtle: the differential-drive robot and its lidar\<close>

text \<open>
  A shallow embedding of \<^verbatim>\<open>src/src/robot.cpp\<close>. The C++ \<^verbatim>\<open>float\<close> is
  modelled by \<^typ>\<open>real\<close>: rounding, infinities and NaN are outside the model, so
  every statement below is about the arithmetic the code writes down, carried out
  exactly. Objects reached through a pointer (\<^verbatim>\<open>Lidar*\<close>, \<^verbatim>\<open>Point2d*\<close>) live
  in an explicit heap; the robot itself is a value that a method takes and returns.
\<close>

subsection \<open>Data\<close>

type_synonym addr = nat

text \<open>
  \<^verbatim>\<open>geometry.h\<close> is not among the sources. \<^verbatim>\<open>Point2d(x, y)\<close> and
  \<^verbatim>\<open>Line(x1, y1, x2, y2)\<close> are taken to hold the coordinates they are built from;
  \<^verbatim>\<open>Circle(x, y, radius)\<close> to hold the fields \<^verbatim>\<open>xc\<close>, \<^verbatim>\<open>yc\<close> and
  \<^verbatim>\<open>radius\<close> that \<^verbatim>\<open>robot.cpp\<close> reads through \<^verbatim>\<open>this\<close>.
\<close>

record Point2d =
  point_x :: real
  point_y :: real

record Line =
  line_x1 :: real
  line_y1 :: real
  line_x2 :: real
  line_y2 :: real

record Circle =
  xc :: real
  yc :: real
  radius :: real

record Lidar =
  frequency :: real
  position :: addr
  lasers :: "real list"
  min_distance :: real
  max_distance :: real

text \<open>\<^verbatim>\<open>class TurtlebotBurger : public Circle\<close>; the member \<^verbatim>\<open>lidar\<close> is a pointer.\<close>

record TurtlebotBurger = Circle +
  dt :: real
  theta :: real
  inv_diameter :: real
  diameter :: real
  name :: string
  model :: string
  lidar :: addr

text \<open>The heap: a bump allocator and one table per class of heap object.\<close>

record heap =
  next_addr :: addr
  points :: "addr \<rightharpoonup> Point2d"
  lidars :: "addr \<rightharpoonup> Lidar"

text \<open>
  The macros \<^verbatim>\<open>N_LASERS\<close>, \<^verbatim>\<open>MIN_DISTANCE\<close>, \<^verbatim>\<open>MAX_DISTANCE\<close> and
  \<^verbatim>\<open>TO_RAD\<close> come from headers that are not among the sources; they are parameters.
\<close>

record config =
  N_LASERS :: nat
  MIN_DISTANCE :: real
  MAX_DISTANCE :: real
  TO_RAD :: real

definition empty_heap :: heap where
  "empty_heap = \<lparr>next_addr = 0, points = Map.empty, lidars = Map.empty\<rparr>"

subsection \<open>Construction\<close>

definition new_Point2d :: "real \<Rightarrow> real \<Rightarrow> heap \<Rightarrow> addr \<times> heap" where
  "new_Point2d x y h =
     (next_addr h,
      h\<lparr>next_addr := next_addr h + 1,
        points := (points h)(next_addr h \<mapsto> \<lparr>point_x = x, point_y = y\<rparr>)\<rparr>)"

text \<open>\<^verbatim>\<open>Lidar::Lidar(float frequency, Point2d* position)\<close>\<close>

definition Lidar_init :: "config \<Rightarrow> real \<Rightarrow> addr \<Rightarrow> Lidar" where
  "Lidar_init cfg freq pos =
     \<lparr>frequency = freq,
      position = pos,
      lasers = replicate (N_LASERS cfg) (MAX_DISTANCE cfg),
      min_distance = MIN_DISTANCE cfg,
      max_distance = MAX_DISTANCE cfg\<rparr>"

definition new_Lidar :: "config \<Rightarrow> real \<Rightarrow> addr \<Rightarrow> heap \<Rightarrow> addr \<times> heap" where
  "new_Lidar cfg freq pos h =
     (next_addr h,
      h\<lparr>next_addr := next_addr h + 1,
        lidars := (lidars h)(next_addr h \<mapsto> Lidar_init cfg freq pos)\<rparr>)"

text \<open>
  \<^verbatim>\<open>TurtlebotBurger::TurtlebotBurger(x, y, theta, radius, dt, name)\<close>. The local
  \<^verbatim>\<open>float frequency\<close> is passed to the lidar uninitialised; its value is the
  parameter \<open>freq\<close>.
\<close>

definition TurtlebotBurger_init ::
  "config \<Rightarrow> real \<Rightarrow> real \<Rightarrow> real \<Rightarrow> real \<Rightarrow> real \<Rightarrow> real \<Rightarrow> string \<Rightarrow> heap
    \<Rightarrow> TurtlebotBurger \<times> heap" where
  "TurtlebotBurger_init cfg freq x y th rad step nm h =
     (let (p, h1) = new_Point2d x y h;
          (l, h2) = new_Lidar cfg freq p h1
      in (\<lparr>xc = x, yc = y, radius = rad,
           dt = step,
           theta = th,
           inv_diameter = 1.0 / (2 * rad),
           diameter = rad * 2.0,
           name = nm,
           model = ''burger'',
           lidar = l\<rparr>, h2))"

subsection \<open>Kinematics\<close>

text \<open>
  \<^verbatim>\<open>normalize_angle\<close> is declared in \<^verbatim>\<open>utils.h\<close>, which is not among the
  sources; \<^verbatim>\<open>kinematics\<close> and \<^verbatim>\<open>move\<close> take it as a parameter.
\<close>

definition kinematics ::
  "(real \<Rightarrow> real) \<Rightarrow> TurtlebotBurger \<Rightarrow> real \<Rightarrow> real \<Rightarrow> real \<times> real \<times> real" where
  "kinematics normalize_angle this v w =
     (let v_left = v + w * radius this;
          v_right = v - w * radius this;
          dd = (v_left + v_right) * 0.5;
          dth = (v_left - v_right) * inv_diameter this
      in (xc this + dd * cos (theta this + dth * 0.5) * dt this,
          yc this + dd * sin (theta this + dth * 0.5) * dt this,
          normalize_angle (theta this + dth * dt this)))"

definition move ::
  "(real \<Rightarrow> real) \<Rightarrow> TurtlebotBurger \<Rightarrow> real \<Rightarrow> real \<Rightarrow> heap \<Rightarrow> TurtlebotBurger \<times> heap" where
  "move normalize_angle this v w h =
     (let new_pose = kinematics normalize_angle this v w
      in (this\<lparr>xc := fst new_pose,
               yc := fst (snd new_pose),
               theta := snd (snd new_pose)\<rparr>, h))"

text \<open>The accessors \<^verbatim>\<open>TurtlebotBurger::x()\<close> and \<^verbatim>\<open>TurtlebotBurger::y()\<close>.\<close>

definition burger_x :: "TurtlebotBurger \<Rightarrow> real" where
  "burger_x this = xc this"

definition burger_y :: "TurtlebotBurger \<Rightarrow> real" where
  "burger_y this = yc this"

text \<open>A caller that issues a sequence of \<^verbatim>\<open>move(v, w)\<close> commands, in order.\<close>

fun moves ::
  "(real \<Rightarrow> real) \<Rightarrow> TurtlebotBurger \<Rightarrow> (real \<times> real) list \<Rightarrow> heap \<Rightarrow> TurtlebotBurger \<times> heap" where
  "moves normalize_angle this [] h = (this, h)"
| "moves normalize_angle this ((v, w) # cmds) h =
     (case move normalize_angle this v w h of
        (this', h') \<Rightarrow> moves normalize_angle this' cmds h')"

subsection \<open>Lidar\<close>

text \<open>
  \<^verbatim>\<open>Lidar::in_between\<close>. In C++ the chain \<^verbatim>\<open>xi <= xm <= xf\<close> parses as
  \<^verbatim>\<open>(xi <= xm) <= xf\<close>: the first comparison yields a \<^verbatim>\<open>bool\<close>, which is
  promoted to 0 or 1 and then compared with \<^verbatim>\<open>xf\<close>; \<open>bool_to_float\<close> is that
  promotion. Neither \<^verbatim>\<open>in_between\<close> nor \<^verbatim>\<open>obstacle_in_sight\<close> reads a
  field of the lidar, so they take none.
\<close>

definition bool_to_float :: "bool \<Rightarrow> real" where
  "bool_to_float b = (if b then 1 else 0)"

definition in_between :: "real \<Rightarrow> real \<Rightarrow> real \<Rightarrow> bool" where
  "in_between xi xm xf \<longleftrightarrow>
     bool_to_float (xi \<le> xm) \<le> xf \<or> bool_to_float (xf \<le> xm) \<le> xi"

definition obstacle_in_sight :: "real \<Rightarrow> real \<Rightarrow> real \<Rightarrow> real \<Rightarrow> real \<Rightarrow> real \<Rightarrow> bool" where
  "obstacle_in_sight x_min y_min x_max y_max x_obs y_obs \<longleftrightarrow>
     in_between x_min x_obs x_max \<and> in_between y_min y_obs y_max"

text \<open>
  \<^verbatim>\<open>Lidar::get_laser_points(float angle, float x, float y, float theta)\<close>: the
  near and the far point of a ray, as \<open>(x_near, y_near, x_far, y_far)\<close>. The
  source's locals \<^verbatim>\<open>cos_\<close> and \<^verbatim>\<open>sin_\<close> are \<open>cos_a\<close> and \<open>sin_a\<close> here.
\<close>

definition get_laser_points ::
  "config \<Rightarrow> Lidar \<Rightarrow> real \<Rightarrow> real \<Rightarrow> real \<Rightarrow> real \<Rightarrow> real \<times> real \<times> real \<times> real" where
  "get_laser_points cfg this angle x y th =
     (let angle_rad = angle * TO_RAD cfg;
          cos_a = cos (angle_rad + th);
          sin_a = sin (angle_rad + th)
      in (x + min_distance this * cos_a,
          y + min_distance this * sin_a,
          x + max_distance this * cos_a,
          y + max_distance this * sin_a))"

subsection \<open>The sense cycle\<close>

text \<open>
  \<^verbatim>\<open>update_lidar_heavy\<close> calls code of \<^verbatim>\<open>utils.h\<close> and \<^verbatim>\<open>obstacles.h\<close>,
  which are not among the sources: \<^verbatim>\<open>distance_between_points\<close>, and on a round
  obstacle \<^verbatim>\<open>intersects_line\<close>, \<^verbatim>\<open>get_xc\<close> and \<^verbatim>\<open>get_yc\<close>. They are
  parameters, and so is the type \<open>'o\<close> of round obstacles.
\<close>

record 'o externals =
  distance_between_points :: "real \<Rightarrow> real \<Rightarrow> real \<Rightarrow> real \<Rightarrow> real"
  intersects_line :: "'o \<Rightarrow> Line \<Rightarrow> bool \<times> real \<times> real \<times> real \<times> real"
  get_xc :: "'o \<Rightarrow> real"
  get_yc :: "'o \<Rightarrow> real"

text \<open>What the function prints on \<^verbatim>\<open>std::cout\<close>, one event per line printed.\<close>

datatype 'o event =
    Laser_before Line
  | Ray_line int
  | Laser_line Line
  | Obstacle_line nat 'o
  | Intersection_line nat "bool \<times> real \<times> real \<times> real \<times> real"
  | Separator_line

text \<open>
  The state a sense cycle runs on: the heap, the function's locals (\<open>None\<close> while a
  local is uninitialised) and the output so far. The local \<^verbatim>\<open>float min_distance\<close>
  is declared and never read or written; it has no field.
\<close>

record 'o sense =
  hp :: heap
  laser :: Line
  in_sight :: "bool option"
  intersection :: "(bool \<times> real \<times> real \<times> real \<times> real) option"
  distance :: "real option"
  out :: "'o event list"

definition set_points :: "real \<times> real \<times> real \<times> real \<Rightarrow> Line" where
  "set_points p =
     (case p of (a, b, c, d) \<Rightarrow> \<lparr>line_x1 = a, line_y1 = b, line_x2 = c, line_y2 = d\<rparr>)"

text \<open>
  The body of the loop over \<^verbatim>\<open>round_obstacles\<close>, at the index the source calls
  \<^verbatim>\<open>o\<close> and the model \<open>i\<close>.
\<close>

definition round_obstacle_step ::
  "'o externals \<Rightarrow> real \<times> real \<times> real \<times> real \<Rightarrow> 'o list \<Rightarrow> nat \<Rightarrow> 'o sense \<Rightarrow> 'o sense" where
  "round_obstacle_step ext laser_points round_obstacles i st =
     (let obstacle = round_obstacles ! i;
          isect = intersects_line ext obstacle (laser st);
          st1 = st\<lparr>intersection := Some isect,
                   out := out st @ [Obstacle_line i obstacle, Intersection_line i isect]\<rparr>
      in case isect of (hit, xa, ya, xb, yb) \<Rightarrow>
           if hit then
             (let seen = obstacle_in_sight xa ya xb yb (get_xc ext obstacle) (get_yc ext obstacle);
                  st2 = st1\<lparr>in_sight := Some seen\<rparr>
              in if seen then
                   st2\<lparr>distance := Some (distance_between_points ext
                                            (fst laser_points) (fst (snd laser_points)) 0 0)\<rparr>
                 else st2)
           else st1)"

text \<open>\<^verbatim>\<open>for(int o = 0; o < round_obstacles.size(); o++)\<close>; the index stays in range.\<close>

function round_obstacles_loop ::
  "'o externals \<Rightarrow> real \<times> real \<times> real \<times> real \<Rightarrow> 'o list \<Rightarrow> nat \<Rightarrow> 'o sense \<Rightarrow> 'o sense" where
  "round_obstacles_loop ext laser_points round_obstacles i st =
     (if i < length round_obstacles then
        round_obstacles_loop ext laser_points round_obstacles (i + 1)
          (round_obstacle_step ext laser_points round_obstacles i st)
      else st)"
  by pat_completeness auto
termination
  by (relation "measure (\<lambda>(ext, laser_points, round_obstacles, i, st). length round_obstacles - i)")
     auto

text \<open>
  The body of the loop over rays. \<^verbatim>\<open>this->lidar\<close> is dereferenced: on a pointer
  that holds no lidar the C++ has no defined behaviour, and the model returns \<open>None\<close>.
  The vector \<^verbatim>\<open>edges\<close> is a parameter that the body never reads.
\<close>

definition ray_step ::
  "'o externals \<Rightarrow> config \<Rightarrow> TurtlebotBurger \<Rightarrow> 'o list \<Rightarrow> Line list \<Rightarrow> int \<Rightarrow> 'o sense
    \<Rightarrow> 'o sense option" where
  "ray_step ext cfg this round_obstacles edges ray st =
     (case lidars (hp st) (lidar this) of
        None \<Rightarrow> None
      | Some ld \<Rightarrow>
          (let laser_points =
                 get_laser_points cfg ld (of_int ray) (burger_x this) (burger_y this) (theta this);
               st1 = st\<lparr>laser := set_points laser_points,
                        out := out st @ [Ray_line ray, Laser_line (set_points laser_points)]\<rparr>;
               st2 = round_obstacles_loop ext laser_points round_obstacles 0 st1
           in Some (st2\<lparr>out := out st2 @ [Separator_line]\<rparr>)))"

text \<open>
  \<^verbatim>\<open>for (int ray=45; ray < 46; ray++)\<close>, under the comment
  \<^verbatim>\<open>// Go through all rays\<close> and the commented-out loop over
  \<^verbatim>\<open>this->lidar->get_lasers().size()\<close>.
\<close>

function rays_loop ::
  "'o externals \<Rightarrow> config \<Rightarrow> TurtlebotBurger \<Rightarrow> 'o list \<Rightarrow> Line list \<Rightarrow> int \<Rightarrow> 'o sense
    \<Rightarrow> 'o sense option" where
  "rays_loop ext cfg this round_obstacles edges ray st =
     (if ray < 46 then
        (case ray_step ext cfg this round_obstacles edges ray st of
           None \<Rightarrow> None
         | Some st' \<Rightarrow> rays_loop ext cfg this round_obstacles edges (ray + 1) st')
      else Some st)"
  by pat_completeness auto
termination
  by (relation "measure (\<lambda>(ext, cfg, this, round_obstacles, edges, ray, st). nat (46 - ray))")
     auto

text \<open>
  The state on entry to the loop: \<^verbatim>\<open>Line laser(0,0,0,0)\<close> has been built and
  printed, the other locals are uninitialised.
\<close>

definition sense_init :: "heap \<Rightarrow> 'o sense" where
  "sense_init h =
     \<lparr>hp = h,
      laser = \<lparr>line_x1 = 0, line_y1 = 0, line_x2 = 0, line_y2 = 0\<rparr>,
      in_sight = None,
      intersection = None,
      distance = None,
      out = [Laser_before \<lparr>line_x1 = 0, line_y1 = 0, line_x2 = 0, line_y2 = 0\<rparr>]\<rparr>"

definition update_lidar_heavy ::
  "'o externals \<Rightarrow> config \<Rightarrow> TurtlebotBurger \<Rightarrow> 'o list \<Rightarrow> Line list \<Rightarrow> heap
    \<Rightarrow> 'o sense option" where
  "update_lidar_heavy ext cfg this round_obstacles edges h =
     rays_loop ext cfg this round_obstacles edges 45 (sense_init h)"

text \<open>The ray indices a sense cycle printed a \<^verbatim>\<open>Ray\<close> line for, in order.\<close>

fun rays_of :: "'o event list \<Rightarrow> int list" where
  "rays_of [] = []"
| "rays_of (Ray_line r # es) = r # rays_of es"
| "rays_of (e # es) = rays_of es"

text \<open>The readings of the robot's lidar, and the point its \<^verbatim>\<open>position\<close> points to.\<close>

definition lidar_lasers :: "TurtlebotBurger \<Rightarrow> heap \<Rightarrow> real list option" where
  "lidar_lasers this h = map_option lasers (lidars h (lidar this))"

definition lidar_position :: "TurtlebotBurger \<Rightarrow> heap \<Rightarrow> Point2d option" where
  "lidar_position this h =
     (case lidars h (lidar this) of None \<Rightarrow> None | Some ld \<Rightarrow> points h (position ld))"

text \<open>
  Modelled from the spec: \<^verbatim>\<open>normalize_angle\<close> of the missing \<^verbatim>\<open>utils.h\<close>. The
  spec asks for a heading "normalized to a canonical range (e.g. (-\<pi>, \<pi>])": the
  representative of the angle modulo a full turn that lies in that interval.
\<close>

definition wrap_to_pi :: "real \<Rightarrow> real" where
  "wrap_to_pi a = a - 2 * pi * of_int \<lceil>(a - pi) / (2 * pi)\<rceil>"

text \<open>
  The class invariant the constructor sets up: \<^verbatim>\<open>inv_diameter\<close> and
  \<^verbatim>\<open>diameter\<close> are derived from \<^verbatim>\<open>radius\<close>.
\<close>

definition burger_inv :: "TurtlebotBurger \<Rightarrow> bool" where
  "burger_inv this \<longleftrightarrow>
     inv_diameter this = 1 / (2 * radius this) \<and> diameter this = 2 * radius this"


subsection \<open>The tick\<close>



subsection \<open>A concrete world for the examples\<close>

text \<open>
  The values of the macros are not in the sources; the examples take a lidar of 360
  rays, one per degree, that ranges from 0.12 to 3.5.
\<close>

definition example_config :: config where
  "example_config = \<lparr>N_LASERS = 360, MIN_DISTANCE = 0.12, MAX_DISTANCE = 3.5, TO_RAD = pi / 180\<rparr>"

text \<open>
  The robot of the spec's end-to-end scenario, built on the empty heap: at \<open>(0, 0)\<close>
  with heading 0, radius 0.5 and a tick of 1.
\<close>

definition example_start :: "TurtlebotBurger \<times> heap" where
  "example_start = TurtlebotBurger_init example_config 0 0 0 0 (1 / 2) 1 ''bot'' empty_heap"




section \<open>Properties\<close>

lemma burger_inv_init:
  "burger_inv (fst (TurtlebotBurger_init cfg freq x y th rad step nm h))"
  by (simp add: TurtlebotBurger_init_def burger_inv_def Let_def split: prod.splits)

lemma burger_inv_move:
  "burger_inv this \<Longrightarrow> burger_inv (fst (move normalize_angle this v w h))"
  by (simp add: move_def burger_inv_def Let_def)

subsection \<open>Kinematics: auxiliary facts\<close>

lemma wheel_sum: "((v + w * r) + (v - w * r)) * 0.5 = (v::real)"
  by simp

lemma wheel_diff: "r \<noteq> 0 \<Longrightarrow> ((v + w * r) - (v - w * r)) * (1 / (2 * r)) = (w::real)"
  by (simp add: field_simps)



lemma kinematics_closed:
  assumes "burger_inv this" and "radius this \<noteq> 0"
  shows "kinematics normalize_angle this v w =
     (xc this + v * cos (theta this + w * 0.5) * dt this,
      yc this + v * sin (theta this + w * 0.5) * dt this,
      normalize_angle (theta this + w * dt this))"
proof -
  have inv: "inv_diameter this = 1 / (2 * radius this)"
    using assms(1) by (simp add: burger_inv_def)
  show ?thesis
    unfolding kinematics_def Let_def inv
    by (simp only: wheel_sum wheel_diff [OF assms(2)])
qed

lemma wrap_to_pi_0: "wrap_to_pi 0 = 0"
proof -
  have "\<lceil>(0 - pi) / (2 * pi)\<rceil> = (0::int)"
    by (simp add: ceiling_eq_iff)
  then show ?thesis by (simp add: wrap_to_pi_def)
qed

lemma wrap_to_pi_range: "- pi < wrap_to_pi a \<and> wrap_to_pi a \<le> pi"
proof -
  let ?q = "(a - pi) / (2 * pi)"
  have 1: "of_int \<lceil>?q\<rceil> < ?q + 1" by linarith
  have 2: "?q \<le> of_int \<lceil>?q\<rceil>" by linarith
  have p: "0 < 2 * pi" by simp
  from 1 have "2 * pi * of_int \<lceil>?q\<rceil> < 2 * pi * (?q + 1)"
    using p by (simp only: mult_less_cancel_left_pos)
  moreover have "2 * pi * (?q + 1) = a + pi" by (simp add: field_simps)
  moreover from 2 have "2 * pi * ?q \<le> 2 * pi * of_int \<lceil>?q\<rceil>"
    using p by (simp only: mult_le_cancel_left_pos)
  moreover have "2 * pi * ?q = a - pi" by (simp add: field_simps)
  ultimately show ?thesis by (simp add: wrap_to_pi_def)
qed



subsection \<open>The sense cycle: auxiliary facts\<close>

declare round_obstacles_loop.simps [simp del]
declare rays_loop.simps [simp del]

lemma hp_round_obstacle_step: "hp (round_obstacle_step ext lp obs i st) = hp st"
  by (simp add: round_obstacle_step_def Let_def split: prod.splits)

lemma hp_round_obstacles_loop: "hp (round_obstacles_loop ext lp obs i st) = hp st"
proof (induction ext lp obs i st rule: round_obstacles_loop.induct)
  case (1 ext lp obs i st)
  show ?case
  proof (cases "i < length obs")
    case True
    with "1" show ?thesis
      by (simp add: round_obstacles_loop.simps [of ext lp obs i st] hp_round_obstacle_step)
  next
    case False
    then show ?thesis
      by (simp add: round_obstacles_loop.simps [of ext lp obs i st])
  qed
qed

lemma rays_of_append: "rays_of (es @ fs) = rays_of es @ rays_of fs"
  by (induction es rule: rays_of.induct) simp_all

lemma rays_round_obstacle_step:
  "rays_of (out (round_obstacle_step ext lp obs i st)) = rays_of (out st)"
  by (simp add: round_obstacle_step_def Let_def rays_of_append split: prod.splits)

lemma rays_round_obstacles_loop:
  "rays_of (out (round_obstacles_loop ext lp obs i st)) = rays_of (out st)"
proof (induction ext lp obs i st rule: round_obstacles_loop.induct)
  case (1 ext lp obs i st)
  show ?case
  proof (cases "i < length obs")
    case True
    with "1" show ?thesis
      by (simp add: round_obstacles_loop.simps [of ext lp obs i st] rays_round_obstacle_step)
  next
    case False
    then show ?thesis
      by (simp add: round_obstacles_loop.simps [of ext lp obs i st])
  qed
qed

lemma ray_step_None:
  "ray_step ext cfg this obs edges ray st = None \<longleftrightarrow> lidars (hp st) (lidar this) = None"
  by (simp add: ray_step_def Let_def split: option.splits)

lemma ray_step_hp:
  "ray_step ext cfg this obs edges ray st = Some st' \<Longrightarrow> hp st' = hp st"
  by (auto simp: ray_step_def Let_def hp_round_obstacles_loop split: option.splits)

lemma ray_step_rays:
  "ray_step ext cfg this obs edges ray st = Some st' \<Longrightarrow>
     rays_of (out st') = rays_of (out st) @ [ray]"
  by (auto simp: ray_step_def Let_def rays_of_append rays_round_obstacles_loop
           split: option.splits)

lemma ray_step_edges:
  "ray_step ext cfg this obs edges ray st = ray_step ext cfg this obs edges' ray st"
  by (simp add: ray_step_def)

lemma rays_loop_45:
  "rays_loop ext cfg this obs edges 45 st = ray_step ext cfg this obs edges 45 st"
  by (simp add: rays_loop.simps [of ext cfg this obs edges 45 st]
        rays_loop.simps [of ext cfg this obs edges 46] split: option.splits)

lemma update_lidar_heavy_ray_45:
  "update_lidar_heavy ext cfg this obs edges h =
     ray_step ext cfg this obs edges 45 (sense_init h)"
  by (simp add: update_lidar_heavy_def rays_loop_45)

lemma hp_sense_init: "hp (sense_init h) = h"
  by (simp add: sense_init_def)

lemma rays_sense_init: "rays_of (out (sense_init h)) = []"
  by (simp add: sense_init_def)

lemma ray_step_Some:
  "lidars (hp st) (lidar this) = Some ld \<Longrightarrow>
     \<exists>st'. ray_step ext cfg this obs edges ray st = Some st'"
  by (simp add: ray_step_def Let_def)

lemma update_lidar_heavy_Some:
  assumes "lidars h (lidar this) = Some ld"
  shows "\<exists>st. update_lidar_heavy ext cfg this obs edges h = Some st
           \<and> hp st = h \<and> rays_of (out st) = [45]"
proof -
  have "lidars (hp (sense_init h)) (lidar this) = Some ld"
    using assms by (simp add: hp_sense_init)
  from ray_step_Some [OF this]
  obtain st where st: "ray_step ext cfg this obs edges 45 (sense_init h) = Some st"
    by blast
  have "hp st = h"
    using ray_step_hp [OF st] by (simp add: hp_sense_init)
  moreover have "rays_of (out st) = [45]"
    using ray_step_rays [OF st] by (simp add: rays_sense_init)
  ultimately show ?thesis
    using st by (simp add: update_lidar_heavy_ray_45)
qed

lemma update_lidar_heavy_None:
  assumes "lidars h (lidar this) = None"
  shows "update_lidar_heavy ext cfg this obs edges h = None"
  using assms by (simp add: update_lidar_heavy_ray_45 ray_step_None hp_sense_init)

lemma update_lidar_heavy_hp:
  "map_option hp (update_lidar_heavy ext cfg this obs edges h) =
     map_option (\<lambda>ld. h) (lidars h (lidar this))"
proof (cases "lidars h (lidar this)")
  case None
  then show ?thesis
    by (simp add: update_lidar_heavy_None)
next
  case (Some ld)
  from update_lidar_heavy_Some [OF this, of ext cfg obs edges] Some
  show ?thesis by auto
qed

text \<open>
  The only value the loop body ever gives the local \<^verbatim>\<open>distance\<close>: the distance
  between the ray's near point and the origin \<open>(0, 0)\<close>.
\<close>

lemma distance_round_obstacle_step:
  "distance (round_obstacle_step ext lp obs i st) = distance st
   \<or> distance (round_obstacle_step ext lp obs i st)
       = Some (distance_between_points ext (fst lp) (fst (snd lp)) 0 0)"
  by (simp add: round_obstacle_step_def Let_def split: prod.splits)

subsection \<open>Construction and moves: auxiliary facts\<close>

lemma init_lidar:
  "TurtlebotBurger_init cfg freq x y th rad step nm h = (this, h') \<Longrightarrow>
     lidars h' (lidar this) = Some (Lidar_init cfg freq (next_addr h))
     \<and> points h' (next_addr h) = Some \<lparr>point_x = x, point_y = y\<rparr>"
  by (auto simp: TurtlebotBurger_init_def new_Point2d_def new_Lidar_def Let_def)

lemma move_keeps_heap:
  "move normalize_angle this v w h = (this', h') \<Longrightarrow> h' = h \<and> lidar this' = lidar this"
  by (auto simp: move_def Let_def)

lemma moves_keep_heap:
  "moves normalize_angle this cmds h = (this', h') \<Longrightarrow> h' = h \<and> lidar this' = lidar this"
proof (induction cmds arbitrary: this)
  case Nil
  then show ?case by simp
next
  case (Cons c cmds)
  obtain v w where c: "c = (v, w)" by (cases c)
  obtain t1 h1 where m: "move normalize_angle this v w h = (t1, h1)"
    by (cases "move normalize_angle this v w h")
  from move_keeps_heap [OF m] have f: "h1 = h" "lidar t1 = lidar this" by simp_all
  from Cons.prems c m f have "moves normalize_angle t1 cmds h = (this', h')" by simp
  from Cons.IH [OF this] f show ?case by simp
qed





subsection \<open>The example robot\<close>

lemma example_start_fields:
  "xc (fst example_start) = 0" "yc (fst example_start) = 0" "theta (fst example_start) = 0"
  "radius (fst example_start) = 1 / 2" "dt (fst example_start) = 1"
  "lidar (fst example_start) = 1"
  by (simp_all add: example_start_def TurtlebotBurger_init_def new_Point2d_def new_Lidar_def
        empty_heap_def Let_def)

lemma example_start_inv: "burger_inv (fst example_start)"
  unfolding example_start_def by (rule burger_inv_init)





section \<open>The claims\<close>

subsection \<open>Kinematics\<close>








text \<open>
  Claim C10. \<^verbatim>\<open>move(v, w)\<close> changes at most the fields \<open>xc\<close>, \<open>yc\<close> and
  \<open>theta\<close>: the radius, the tick duration, the diameter and its inverse, the name, the
  model and the lidar pointer are the ones from before, and so is the heap, hence the
  lidar object the pointer leads to.
\<close>

theorem move_frame_fields:
  "case move normalize_angle this v w h of
     (this', h') \<Rightarrow>
       radius this' = radius this \<and> dt this' = dt this \<and> diameter this' = diameter this
       \<and> inv_diameter this' = inv_diameter this \<and> name this' = name this
       \<and> model this' = model this \<and> lidar this' = lidar this \<and> h' = h
       \<and> this' = this\<lparr>xc := xc this', yc := yc this', theta := theta this'\<rparr>"
  by (simp add: move_def Let_def)

text \<open>
  Claim C8, as amended. The constructor allocates a \<^verbatim>\<open>Point2d\<close> of its own from
  the coordinates it is given and hands that to the lidar; \<^verbatim>\<open>move\<close> writes
  \<open>xc\<close> and \<open>yc\<close> only. So after any sequence of moves the lidar's stored position
  is still the point the robot was constructed at.
\<close>

theorem lidar_position_is_construction_point:
  "case TurtlebotBurger_init cfg freq x y th rad step nm h0 of
     (this0, h1) \<Rightarrow>
       (case moves normalize_angle this0 cmds h1 of
          (this, h) \<Rightarrow> lidar_position this h = Some \<lparr>point_x = x, point_y = y\<rparr>)"
proof -
  obtain this0 h1 where i: "TurtlebotBurger_init cfg freq x y th rad step nm h0 = (this0, h1)"
    by (cases "TurtlebotBurger_init cfg freq x y th rad step nm h0")
  obtain this h where m: "moves normalize_angle this0 cmds h1 = (this, h)"
    by (cases "moves normalize_angle this0 cmds h1")
  from moves_keep_heap [OF m] have f: "h = h1" "lidar this = lidar this0" by simp_all
  from init_lidar [OF i] have "lidar_position this0 h1 = Some \<lparr>point_x = x, point_y = y\<rparr>"
    by (simp add: lidar_position_def Lidar_init_def)
  then have "lidar_position this h = Some \<lparr>point_x = x, point_y = y\<rparr>"
    using f by (simp add: lidar_position_def)
  with i m show ?thesis by simp
qed

text \<open>
  The claim as stated fails on the example robot: after \<^verbatim>\<open>move(1, 0)\<close> the robot
  is at \<open>(1, 0)\<close> and its lidar's position is still \<open>(0, 0)\<close>.
\<close>

theorem lidar_position_counterexample:
  "burger_x (fst (move wrap_to_pi (fst example_start) 1 0 (snd example_start))) = 1
   \<and> burger_y (fst (move wrap_to_pi (fst example_start) 1 0 (snd example_start))) = 0
   \<and> lidar_position (fst (move wrap_to_pi (fst example_start) 1 0 (snd example_start)))
        (snd (move wrap_to_pi (fst example_start) 1 0 (snd example_start)))
      = Some \<lparr>point_x = 0, point_y = 0\<rparr>"
proof -
  have r: "radius (fst example_start) \<noteq> 0" by (simp add: example_start_fields)
  have k: "kinematics wrap_to_pi (fst example_start) 1 0 = (1, 0, 0)"
    by (simp add: kinematics_closed [OF example_start_inv r] example_start_fields wrap_to_pi_0)
  have p: "lidar_position (fst example_start) (snd example_start)
            = Some \<lparr>point_x = 0, point_y = 0\<rparr>"
    by (simp add: lidar_position_def example_start_def TurtlebotBurger_init_def
          new_Point2d_def new_Lidar_def Lidar_init_def empty_heap_def Let_def)
  show ?thesis
    using p by (simp add: move_def k burger_x_def burger_y_def lidar_position_def)
qed

subsection \<open>The sense cycle\<close>

text \<open>
  Claim C1 asks that each reading be the distance from the robot to the nearest in-sight
  intersection. The code never stores a reading: for a robot built by the constructor
  and moved in any way, a sense cycle over any round obstacles and edges returns, and
  afterwards every one of the \<^verbatim>\<open>N_LASERS\<close> readings is \<^verbatim>\<open>MAX_DISTANCE\<close>, the
  value the constructor gave it, whatever \<^verbatim>\<open>intersects_line\<close> reports.
\<close>

theorem sense_cycle_readings_stay_max:
  "case TurtlebotBurger_init cfg freq x y th rad step nm h0 of
     (this0, h1) \<Rightarrow>
       (case moves normalize_angle this0 cmds h1 of
          (this, h) \<Rightarrow>
            map_option (\<lambda>st. lidar_lasers this (hp st))
              (update_lidar_heavy ext cfg this obs edges h) =
            Some (Some (replicate (N_LASERS cfg) (MAX_DISTANCE cfg))))"
proof -
  obtain this0 h1 where i: "TurtlebotBurger_init cfg freq x y th rad step nm h0 = (this0, h1)"
    by (cases "TurtlebotBurger_init cfg freq x y th rad step nm h0")
  obtain this h where m: "moves normalize_angle this0 cmds h1 = (this, h)"
    by (cases "moves normalize_angle this0 cmds h1")
  from moves_keep_heap [OF m] have f: "h = h1" "lidar this = lidar this0" by simp_all
  from init_lidar [OF i] f
  have l: "lidars h (lidar this) = Some (Lidar_init cfg freq (next_addr h0))" by simp
  from update_lidar_heavy_Some [OF l, of ext cfg obs edges]
  obtain st where st: "update_lidar_heavy ext cfg this obs edges h = Some st" "hp st = h"
    by blast
  have "lidar_lasers this h = Some (replicate (N_LASERS cfg) (MAX_DISTANCE cfg))"
    using l by (simp add: lidar_lasers_def Lidar_init_def)
  with st i m show ?thesis by simp
qed

text \<open>
  Claim C2 asks for one pass of the loop per ray index from 0 to \<^verbatim>\<open>N_LASERS - 1\<close>.
  The loop header is \<^verbatim>\<open>for (int ray=45; ray < 46; ray++)\<close>: a sense cycle on a
  robot with a valid lidar pointer processes the ray index 45 and no other (and on an
  invalid pointer it has no result).
\<close>

theorem sense_cycle_visits_only_ray_45:
  "map_option (\<lambda>st. rays_of (out st)) (update_lidar_heavy ext cfg this obs edges h) =
     map_option (\<lambda>ld. [45]) (lidars h (lidar this))"
proof (cases "lidars h (lidar this)")
  case None
  then show ?thesis
    by (simp add: update_lidar_heavy_None)
next
  case (Some ld)
  from update_lidar_heavy_Some [OF this, of ext cfg obs edges] Some
  show ?thesis by auto
qed

text \<open>
  Claim C4 asks that the in-sight test accept a point exactly when it lies between the
  two bounds on both axes. \<^verbatim>\<open>in_between\<close> compares the truth value of its first
  comparison with the other bound: it accepts 5 as lying between 2 and 3, and rejects 0
  as lying between 0 and 0, so \<^verbatim>\<open>obstacle_in_sight\<close> accepts the point \<open>(5, 5)\<close>
  for the bounds \<open>(2, 2)\<close> and \<open>(3, 3)\<close> and rejects the point \<open>(5, 0)\<close> for the
  bounds \<open>(4.9, 0)\<close> and \<open>(5.1, 0)\<close>.
\<close>

theorem in_between_chained_comparison:
  "in_between 2 5 3 \<and> obstacle_in_sight 2 2 3 3 5 5
   \<and> \<not> in_between 0 0 0 \<and> \<not> obstacle_in_sight 4.9 0 5.1 0 5 0"
  by (simp add: in_between_def obstacle_in_sight_def bool_to_float_def)

text \<open>
  Claim C5 asks that every ray be tested against the wall obstacles as well as the round
  ones. \<^verbatim>\<open>update_lidar_heavy\<close> never reads its parameter \<^verbatim>\<open>edges\<close>: a sense
  cycle gives the same result, output included, as the cycle with no edges at all.
\<close>

theorem sense_cycle_ignores_edges:
  "update_lidar_heavy ext cfg this obs edges h = update_lidar_heavy ext cfg this obs [] h"
  by (simp add: update_lidar_heavy_ray_45 ray_step_edges [of ext cfg this obs edges _ _ "[]"])

text \<open>
  Claim C7 asks that after a sense cycle every reading slot hold the value computed in
  that cycle. The cycle writes no slot: when the lidar pointer is valid the cycle
  returns and the readings afterwards are the readings from before it (and on an invalid
  pointer it has no result).
\<close>

theorem sense_cycle_keeps_old_readings:
  "map_option (\<lambda>st. lidar_lasers this (hp st)) (update_lidar_heavy ext cfg this obs edges h) =
     map_option (\<lambda>ld. Some (lasers ld)) (lidars h (lidar this))"
proof -
  have "map_option (\<lambda>st. lidar_lasers this (hp st)) (update_lidar_heavy ext cfg this obs edges h)
      = map_option (lidar_lasers this) (map_option hp (update_lidar_heavy ext cfg this obs edges h))"
    by (simp add: option.map_comp comp_def)
  also have "\<dots> = map_option (\<lambda>ld. lidar_lasers this h) (lidars h (lidar this))"
    by (simp add: update_lidar_heavy_hp option.map_comp comp_def)
  also have "\<dots> = map_option (\<lambda>ld. Some (lasers ld)) (lidars h (lidar this))"
    by (cases "lidars h (lidar this)") (simp_all add: lidar_lasers_def)
  finally show ?thesis .
qed

end
